theory Spec2Isabelle
  imports Main
begin

section \<open>CSV-to-PostgreSQL importer (run.py): model\<close>

text \<open>
  The script reads a YAML configuration, lists the \<open>*.csv\<close> files of a directory, opens one
  database connection and calls \<open>import_file_to_database\<close> for every file. Everything the
  script does is a call into its surroundings (the file system, PyYAML, pathlib, psycopg2,
  logging), so the model threads the list of calls made so far (the trace) through every
  function, and an environment says which of these calls raise. A Python exception is a
  value: a function returns the pending exception (if any) together with the trace.
\<close>

subsection \<open>Exceptions and traces\<close>

text \<open>
  \<open>Exc n\<close> is an instance of a class \<open>n\<close> derived from \<open>Exception\<close> (what
  \<open>except Exception\<close> catches); \<open>BaseExc n\<close> is any other \<open>BaseException\<close>
  (\<open>KeyboardInterrupt\<close>, \<open>SystemExit\<close>), which \<open>except Exception\<close> lets through.
\<close>

datatype exn = Exc string | BaseExc string

text \<open>Values that \<open>yaml.safe_load\<close> can return; \<open>YNull\<close> is Python's \<open>None\<close>.\<close>

datatype yaml =
    YNull
  | YBool bool
  | YInt int
  | YStr string
  | YSeq "yaml list"
  | YMap "(string \<times> yaml) list"

text \<open>A pathlib path as its constructor parses it: the root (empty, \<open>/\<close> or \<open>//\<close>) and
  the components after it.\<close>

datatype posix_path = PosixPath (path_root: string) (path_parts: "string list")

text \<open>What \<open>os.stat\<close> of a path gives: the mode (whether it is a directory), an
  \<open>OSError\<close> with its error number, or \<open>ValueError\<close> for a path that cannot be encoded.\<close>

datatype errno = EACCES | EBADF | ELOOP | ENAMETOOLONG | ENOENT | ENOMEM | ENOTDIR | EOVERFLOW

datatype stat_result = StatDir bool | StatOSError errno | StatValueError

subsection \<open>The two SQL texts of the script and psycopg2's \<open>sql\<close> module\<close>

datatype sqltype = INTEGER | NUMERIC | JSONB | VARCHAR nat | TEXT | BOOLEAN

datatype col_constraint = PRIMARY_KEY | NOT_NULL | NO_CONSTRAINT

type_synonym column = "string \<times> sqltype \<times> col_constraint"

text \<open>
  The text wrapped by \<open>sql.SQL(...)\<close>, with its replacement field:
  \<open>CREATE TABLE IF NOT EXISTS {field} (columns)\<close> and
  \<open>COPY {field} FROM stdin WITH CSV HEADER DELIMITER as 'c'\<close>.
\<close>

datatype sql =
    CreateTableIfNotExists string "column list"
  | CopyFromStdinCsvHeader string char

text \<open>
  What the script can pass as a keyword argument of \<open>SQL.format\<close>: a plain \<open>str\<close>, or an
  \<open>sql.Identifier\<close> (a \<open>Composable\<close>).
\<close>

datatype pyobj = PyStr string | PyIdentifier string

text \<open>The statement \<open>SQL.format\<close> returns: the text with the identifier to be quoted into it.\<close>

datatype composed = Composed sql string

datatype cur_call =
    Execute composed
  | Commit
  | CopyExpert composed string
  | Close

datatype event =
    LogInfo string
  | LogError string
  | FileOpen string
  | FileClose string
  | YamlSafeLoad string
  | Glob string string
  | Connect yaml
  | ConnCursor
  | ConnCommit
  | ConnClose
  | SqlFormat sql "(string \<times> pyobj) list"
  | CurCall cur_call

text \<open>
  The surroundings of a run. \<open>outcome env tr\<close> is the exception raised by the call that is
  the last event of \<open>tr\<close>, after the calls before it; \<open>yaml_doc\<close> is the parsed content of a
  configuration file; \<open>stat\<close> and \<open>listdir\<close> describe the file system.
\<close>

record env =
  outcome :: "event list \<Rightarrow> exn option"
  yaml_doc :: "string \<Rightarrow> yaml"
  stat :: "string \<Rightarrow> stat_result"
  listdir :: "string \<Rightarrow> string list"

definition call :: "env \<Rightarrow> event \<Rightarrow> event list \<Rightarrow> exn option \<times> event list" where
  "call env ev tr = (outcome env (tr @ [ev]), tr @ [ev])"

subsection \<open>Library behaviour the script relies on\<close>

text \<open>\<open>config[key]\<close>: a dict raises \<open>KeyError\<close> on a missing key, every other value here
  (\<open>None\<close>, a number, a string or a list indexed by a string) raises \<open>TypeError\<close>.\<close>

fun getitem :: "yaml \<Rightarrow> string \<Rightarrow> exn + yaml" where
  "getitem (YMap kvs) k =
     (case map_of kvs k of None \<Rightarrow> Inl (Exc ''KeyError'') | Some v \<Rightarrow> Inr v)"
| "getitem _ k = Inl (Exc ''TypeError'')"

text \<open>\<open>str.rfind\<close>: the index of the last occurrence, or -1.\<close>

definition rfind :: "char \<Rightarrow> string \<Rightarrow> int" where
  "rfind c s =
     (if c \<in> set s
      then int (length s) - 1 - int (length (takeWhile (\<lambda>x. x \<noteq> c) (rev s)))
      else - 1)"

text \<open>\<open>PurePath.stem\<close>: the final component without its last suffix.\<close>

definition stem :: "string \<Rightarrow> string" where
  "stem n =
     (let i = rfind (CHR ''.'') n
      in if 0 < i \<and> i < int (length n) - 1 then take (nat i) n else n)"

text \<open>\<open>str.split(sep)\<close> and \<open>sep.join(parts)\<close>.\<close>

fun str_split :: "char \<Rightarrow> string \<Rightarrow> string list" where
  "str_split c [] = [[]]"
| "str_split c (x # xs) =
     (if x = c then [] # str_split c xs
      else (case str_split c xs of [] \<Rightarrow> [[x]] | y # ys \<Rightarrow> (x # y) # ys))"

fun str_join :: "string \<Rightarrow> string list \<Rightarrow> string" where
  "str_join sep [] = []"
| "str_join sep [x] = x"
| "str_join sep (x # y # ys) = x @ sep @ str_join sep (y # ys)"

text \<open>The POSIX flavour's \<open>splitroot\<close>: exactly two leading slashes are kept as the root
  \<open>//\<close>, any other number of them is the root \<open>/\<close>.\<close>

definition splitroot :: "string \<Rightarrow> string \<times> string" where
  "splitroot part =
     (if part \<noteq> [] \<and> hd part = CHR ''/''
      then (let stripped_part = dropWhile (\<lambda>c. c = CHR ''/'') part
            in if length part - length stripped_part = 2 then (''//'', stripped_part)
               else (''/'', stripped_part))
      else ([], part))"

text \<open>\<open>Path(s)\<close> for a string: the root is split off, empty components and \<open>.\<close> are
  dropped (so are repeated and trailing slashes); \<open>..\<close> is kept.\<close>

definition Path :: "string \<Rightarrow> posix_path" where
  "Path s =
     (case splitroot s of
        (root, rel) \<Rightarrow>
          PosixPath root (filter (\<lambda>x. x \<noteq> [] \<and> x \<noteq> ''.'') (str_split (CHR ''/'') rel)))"

text \<open>\<open>str(path)\<close>, the text given to the operating system and printed in the log.\<close>

definition path_str :: "posix_path \<Rightarrow> string" where
  "path_str p =
     (let s = path_root p @ str_join ''/'' (path_parts p)
      in if s = [] then ''.'' else s)"

text \<open>\<open>path.name\<close>, the final component, if any.\<close>

definition name :: "posix_path \<Rightarrow> string" where
  "name p = (if path_parts p = [] then [] else last (path_parts p))"

text \<open>The path of an entry of a directory, as the glob builds it.\<close>

definition make_child_relpath :: "posix_path \<Rightarrow> string \<Rightarrow> posix_path" where
  "make_child_relpath p n = PosixPath (path_root p) (path_parts p @ [n])"

text \<open>The exception class Python raises for an error number.\<close>

fun OSError :: "errno \<Rightarrow> exn" where
  "OSError EACCES = Exc ''PermissionError''"
| "OSError ENOENT = Exc ''FileNotFoundError''"
| "OSError ENOTDIR = Exc ''NotADirectoryError''"
| "OSError _ = Exc ''OSError''"

text \<open>
  \<open>Path.is_dir\<close>: the path is examined with \<open>stat\<close>. An \<open>OSError\<close> whose error number
  is one of ENOENT, ENOTDIR, EBADF, ELOOP means "not a directory" and so does
  \<open>ValueError\<close>; every other \<open>OSError\<close> is raised again (permission denied on a
  directory above the path, a name that is too long).
\<close>

definition ignore_error :: "errno \<Rightarrow> bool" where
  "ignore_error e = (e \<in> set [ENOENT, ENOTDIR, EBADF, ELOOP])"

definition Path_is_dir :: "env \<Rightarrow> posix_path \<Rightarrow> exn + bool" where
  "Path_is_dir env p =
     (case stat env (path_str p) of
        StatDir d \<Rightarrow> Inr d
      | StatOSError e \<Rightarrow> if ignore_error e then Inr False else Inl (OSError e)
      | StatValueError \<Rightarrow> Inr False)"

text \<open>Shell-style matching of a name against a pattern with \<open>*\<close> and \<open>?\<close>.\<close>

fun fnmatch :: "string \<Rightarrow> string \<Rightarrow> bool" where
  "fnmatch [] n = (n = [])"
| "fnmatch (p # ps) [] = (p = CHR ''*'' \<and> fnmatch ps [])"
| "fnmatch (p # ps) (c # cs) =
     (if p = CHR ''*'' then fnmatch ps (c # cs) \<or> fnmatch (p # ps) cs
      else (p = CHR ''?'' \<or> p = c) \<and> fnmatch ps cs)"

text \<open>
  \<open>Path.glob\<close> with a one-component pattern, consumed to the end. pathlib first asks
  \<open>is_dir\<close>: an exception of it leaves the glob, and a path that is not a directory
  yields nothing. Then the directory is scanned: a \<open>PermissionError\<close> of the scan is
  swallowed, and every entry (file or directory) whose name matches is yielded.
\<close>

definition Path_glob ::
  "env \<Rightarrow> posix_path \<Rightarrow> string \<Rightarrow> event list \<Rightarrow> (exn + posix_path list) \<times> event list"
  where
  "Path_glob env directory pattern tr =
     (let tr1 = tr @ [Glob (path_str directory) pattern]
      in case Path_is_dir env directory of
           Inl e \<Rightarrow> (Inl e, tr1)
         | Inr False \<Rightarrow> (Inr [], tr1)
         | Inr True \<Rightarrow>
             (case outcome env tr1 of
                Some e \<Rightarrow>
                  if e = Exc ''PermissionError'' then (Inr [], tr1) else (Inl e, tr1)
              | None \<Rightarrow>
                  (Inr (map (make_child_relpath directory)
                          (filter (fnmatch pattern) (listdir env (path_str directory)))),
                   tr1)))"

fun sql_field :: "sql \<Rightarrow> string" where
  "sql_field (CreateTableIfNotExists f cols) = f"
| "sql_field (CopyFromStdinCsvHeader f d) = f"

text \<open>
  \<open>sql.SQL(text).format(**kwargs)\<close>: the field is looked up in the keyword arguments, and
  the result is a \<open>Composed\<close>, whose constructor raises \<open>TypeError\<close> for an element that is
  not a \<open>Composable\<close> (a plain \<open>str\<close> is not).
\<close>

definition SQL_format :: "sql \<Rightarrow> (string \<times> pyobj) list \<Rightarrow> exn + composed" where
  "SQL_format t kwargs =
     (case map_of kwargs (sql_field t) of
        None \<Rightarrow> Inl (Exc ''KeyError'')
      | Some (PyStr s) \<Rightarrow> Inl (Exc ''TypeError'')
      | Some (PyIdentifier s) \<Rightarrow> Inr (Composed t s))"

text \<open>The methods of a psycopg2 cursor object. There is no \<open>commit\<close>: that is a method of
  the connection.\<close>

definition cursor_methods :: "string list" where
  "cursor_methods =
     [''callproc'', ''cast'', ''close'', ''copy_expert'', ''copy_from'', ''copy_to'',
      ''execute'', ''executemany'', ''fetchall'', ''fetchmany'', ''fetchone'', ''mogrify'',
      ''nextset'', ''scroll'', ''setinputsizes'', ''setoutputsize'']"

fun method_name :: "cur_call \<Rightarrow> string" where
  "method_name (Execute q) = ''execute''"
| "method_name Commit = ''commit''"
| "method_name (CopyExpert q f) = ''copy_expert''"
| "method_name Close = ''close''"

text \<open>\<open>cur.m(...)\<close>: an attribute the cursor does not have raises \<open>AttributeError\<close> before
  anything is sent; otherwise the call is made.\<close>

definition cursor_call :: "env \<Rightarrow> cur_call \<Rightarrow> event list \<Rightarrow> exn option \<times> event list" where
  "cursor_call env c tr =
     (if method_name c \<in> set cursor_methods then call env (CurCall c) tr
      else (Some (Exc ''AttributeError''), tr))"

subsection \<open>The script\<close>

definition create_table_sql :: sql where
  "create_table_sql =
     CreateTableIfNotExists ''table_name''
       [(''osm_id'', INTEGER, PRIMARY_KEY),
        (''area'', NUMERIC, NOT_NULL),
        (''lon'', NUMERIC, NOT_NULL),
        (''lat'', NUMERIC, NOT_NULL),
        (''tags'', JSONB, NO_CONSTRAINT),
        (''osm_type'', VARCHAR 25, NOT_NULL),
        (''p_tag_value'', TEXT, NO_CONSTRAINT),
        (''city'', TEXT, NO_CONSTRAINT),
        (''postcode'', TEXT, NO_CONSTRAINT),
        (''address'', TEXT, NO_CONSTRAINT),
        (''street'', TEXT, NO_CONSTRAINT),
        (''has_way'', BOOLEAN, NOT_NULL),
        (''shop_type'', TEXT, NO_CONSTRAINT),
        (''derived_shared_area'', NUMERIC, NO_CONSTRAINT),
        (''derived_way_area'', NUMERIC, NO_CONSTRAINT),
        (''parent_way'', INTEGER, NO_CONSTRAINT),
        (''shared_divisor'', INTEGER, NO_CONSTRAINT),
        (''area_sq_foot'', NUMERIC, NOT_NULL)]"

definition copy_sql :: sql where
  "copy_sql = CopyFromStdinCsvHeader ''table_name'' (CHR '','')"

text \<open>\<open>read_yaml_config\<close>: an \<open>Exception\<close> of \<open>open\<close> or \<open>safe_load\<close> is logged and the
  function falls off its end, returning \<open>None\<close>.\<close>

definition read_yaml_config ::
  "env \<Rightarrow> string \<Rightarrow> event list \<Rightarrow> (exn + yaml) \<times> event list" where
  "read_yaml_config env config_path tr =
     (case (case call env (FileOpen config_path) tr of
              (Some e, tr1) \<Rightarrow> (Inl e, tr1)
            | (None, tr1) \<Rightarrow>
                (case call env (YamlSafeLoad config_path) tr1 of
                   (Some e, tr2) \<Rightarrow> (Inl e, tr2 @ [FileClose config_path])
                 | (None, tr2) \<Rightarrow>
                     (Inr (yaml_doc env config_path), tr2 @ [FileClose config_path])))
      of (Inl (Exc n), tr3) \<Rightarrow>
           (Inr YNull, tr3 @ [LogError ''Failed to load YAML config file.''])
       | (r, tr3) \<Rightarrow> (r, tr3))"

text \<open>\<open>list_files\<close>: \<open>Path(search_folder)\<close> raises \<open>TypeError\<close> for anything but a string;
  the list comprehension collects all that the glob yields.\<close>

definition list_files ::
  "env \<Rightarrow> yaml \<Rightarrow> event list \<Rightarrow> (exn + posix_path list) \<times> event list" where
  "list_files env search_folder tr =
     (let pattern = ''*.csv''
      in case search_folder of
           YStr s \<Rightarrow> Path_glob env (Path s) pattern tr
         | _ \<Rightarrow> (Inl (Exc ''TypeError''), tr))"

text \<open>Lines 97 to 124 of \<open>import_file_to_database\<close>: compose the CREATE TABLE statement,
  execute it, then \<open>cur.commit()\<close>. \<open>file_name\<close> is the value given for \<open>table_name\<close>.\<close>

definition provision :: "env \<Rightarrow> pyobj \<Rightarrow> event list \<Rightarrow> exn option \<times> event list" where
  "provision env file_name tr =
     (let kwargs = [(''table_name'', file_name)];
          tr1 = tr @ [SqlFormat create_table_sql kwargs]
      in case SQL_format create_table_sql kwargs of
           Inl e \<Rightarrow> (Some e, tr1)
         | Inr query \<Rightarrow>
             (case cursor_call env (Execute query) tr1 of
                (Some e, tr2) \<Rightarrow> (Some e, tr2)
              | (None, tr2) \<Rightarrow> cursor_call env Commit tr2))"

text \<open>Lines 126 to 134: open the file, compose the COPY statement, \<open>copy_expert\<close>; the
  \<open>with\<close> closes the file on every way out.\<close>

definition stream ::
  "env \<Rightarrow> posix_path \<Rightarrow> pyobj \<Rightarrow> event list \<Rightarrow> exn option \<times> event list" where
  "stream env file_path file_name tr =
     (case call env (FileOpen (path_str file_path)) tr of
        (Some e, tr1) \<Rightarrow> (Some e, tr1)
      | (None, tr1) \<Rightarrow>
          (let kwargs = [(''table_name'', file_name)];
               tr2 = tr1 @ [SqlFormat copy_sql kwargs]
           in case (case SQL_format copy_sql kwargs of
                      Inl e \<Rightarrow> (Some e, tr2)
                    | Inr query \<Rightarrow>
                        cursor_call env (CopyExpert query (path_str file_path)) tr2)
              of (r, tr3) \<Rightarrow> (r, tr3 @ [FileClose (path_str file_path)])))"

text \<open>The body of \<open>with conn.cursor() as cur\<close>.\<close>

definition cursor_block ::
  "env \<Rightarrow> posix_path \<Rightarrow> pyobj \<Rightarrow> event list \<Rightarrow> exn option \<times> event list" where
  "cursor_block env file_path file_name tr =
     (case provision env file_name tr of
        (Some e, tr1) \<Rightarrow> (Some e, tr1)
      | (None, tr1) \<Rightarrow> stream env file_path file_name tr1)"

text \<open>
  \<open>import_file_to_database\<close>. The \<open>try\<close> part yields the pending exception and whether the
  local variable \<open>cur\<close> has been bound (it is bound by the \<open>with\<close>, once \<open>conn.cursor()\<close>
  has returned; leaving the \<open>with\<close> closes the cursor). \<open>except Exception\<close> logs and
  clears an \<open>Exc\<close>. The \<open>finally\<close> part reads \<open>cur\<close>: unbound, that is an
  \<open>UnboundLocalError\<close>; bound, the cursor is closed again. An exception of the \<open>finally\<close>
  part replaces the pending one.
\<close>

definition import_file_to_database ::
  "env \<Rightarrow> posix_path \<Rightarrow> event list \<Rightarrow> exn option \<times> event list" where
  "import_file_to_database env file_path tr =
     (let file_name = stem (name file_path);
          tr1 = tr @ [LogInfo (''Importing file '' @ path_str file_path @
                         '' into database table '' @ file_name @ ''.'')]
      in case (case call env ConnCursor tr1 of
                 (Some e, tr2) \<Rightarrow> (Some e, False, tr2)
               | (None, tr2) \<Rightarrow>
                   (case cursor_block env file_path (PyStr file_name) tr2 of
                      (r, tr3) \<Rightarrow>
                        (case cursor_call env Close tr3 of
                           (Some e, tr4) \<Rightarrow> (Some e, True, tr4)
                         | (None, tr4) \<Rightarrow> (r, True, tr4))))
         of (r, cur_bound, tr5) \<Rightarrow>
           (case (case r of
                    Some (Exc n) \<Rightarrow>
                      (None, tr5 @ [LogError (''Failed to import file '' @ path_str file_path @
                                       '' into database table '' @ file_name)])
                  | _ \<Rightarrow> (r, tr5))
            of (r', tr6) \<Rightarrow>
              if cur_bound
              then (case cursor_call env Close tr6 of
                      (Some e, tr7) \<Rightarrow> (Some e, tr7)
                    | (None, tr7) \<Rightarrow> (r', tr7))
              else (Some (Exc ''UnboundLocalError''), tr6)))"

text \<open>The \<open>for\<close> loop of \<open>run\<close>: an exception leaving one call ends the loop.\<close>

fun import_all :: "env \<Rightarrow> posix_path list \<Rightarrow> event list \<Rightarrow> exn option \<times> event list" where
  "import_all env [] tr = (None, tr)"
| "import_all env (file # files) tr =
     (case import_file_to_database env file tr of
        (Some e, tr1) \<Rightarrow> (Some e, tr1)
      | (None, tr1) \<Rightarrow> import_all env files tr1)"

text \<open>The \<open>try\<close> part of \<open>run\<close> (lines 52 to 58), with whether \<open>db_conn\<close> has been
  assigned a connection. \<open>connect(**x)\<close> raises \<open>TypeError\<close> when \<open>x\<close> is not a mapping.\<close>

definition run_try ::
  "env \<Rightarrow> yaml \<Rightarrow> posix_path list \<Rightarrow> event list \<Rightarrow> exn option \<times> bool \<times> event list" where
  "run_try env config files tr =
     (case getitem config ''db'' of
        Inl e \<Rightarrow> (Some e, False, tr)
      | Inr (YMap kwargs) \<Rightarrow>
          (case call env (Connect (YMap kwargs)) tr of
             (Some e, tr1) \<Rightarrow> (Some e, False, tr1)
           | (None, tr1) \<Rightarrow>
               (case import_all env files tr1 of
                  (Some e, tr2) \<Rightarrow> (Some e, True, tr2)
                | (None, tr2) \<Rightarrow> (None, True, tr2 @ [LogInfo ''Import complete.''])))
      | Inr _ \<Rightarrow> (Some (Exc ''TypeError''), False, tr))"

text \<open>
  \<open>run\<close>: the configuration is read and the files are listed before the \<open>try\<close>, so an
  exception there leaves \<open>run\<close> at once. \<open>except Exception\<close> logs and clears an \<open>Exc\<close>
  of the \<open>try\<close> part; the \<open>finally\<close> part closes the connection if \<open>db_conn\<close> is not
  \<open>None\<close>.
\<close>

definition run :: "env \<Rightarrow> string \<Rightarrow> exn option \<times> event list" where
  "run env config_path =
     (case read_yaml_config env config_path [LogInfo ''Application started.''] of
        (Inl e, tr1) \<Rightarrow> (Some e, tr1)
      | (Inr config, tr1) \<Rightarrow>
          (case getitem config ''target_path'' of
             Inl e \<Rightarrow> (Some e, tr1)
           | Inr target_path \<Rightarrow>
               (case list_files env target_path tr1 of
                  (Inl e, tr2) \<Rightarrow> (Some e, tr2)
                | (Inr files, tr2) \<Rightarrow>
                    (case run_try env config files tr2 of
                       (r, db_conn, tr3) \<Rightarrow>
                         (case (case r of
                                  Some (Exc n) \<Rightarrow>
                                    (None, tr3 @ [LogError
                                       ''An error occurred whilst importing data files into the database''])
                                | _ \<Rightarrow> (r, tr3))
                          of (r', tr4) \<Rightarrow>
                            if db_conn
                            then (case call env ConnClose tr4 of
                                    (Some e, tr5) \<Rightarrow> (Some e, tr5)
                                  | (None, tr5) \<Rightarrow> (r', tr5))
                            else (r', tr4))))))"


subsection \<open>Classes of events\<close>

text \<open>The calls made before the \<open>try\<close> of \<open>run\<close>: logging, reading the
  configuration, listing the directory.\<close>

fun startup_event :: "event \<Rightarrow> bool" where
  "startup_event (LogInfo m) = True"
| "startup_event (LogError m) = True"
| "startup_event (FileOpen p) = True"
| "startup_event (FileClose p) = True"
| "startup_event (YamlSafeLoad p) = True"
| "startup_event (Glob d p) = True"
| "startup_event _ = False"


text \<open>The calls a call of \<open>import_file_to_database\<close> turns out to make: logging,
  \<open>conn.cursor()\<close>, composing the CREATE TABLE statement with the table name given as a
  plain string, and closing the cursor.\<close>

fun import_event :: "event \<Rightarrow> bool" where
  "import_event (LogInfo m) = True"
| "import_event (LogError m) = True"
| "import_event ConnCursor = True"
| "import_event (SqlFormat t kwargs) =
     (t = create_table_sql \<and>
      (case kwargs of [(k, PyStr s)] \<Rightarrow> k = ''table_name'' | _ \<Rightarrow> False))"
| "import_event (CurCall c) = (c = Close)"
| "import_event _ = False"


subsection \<open>The table schema in the words of the specification\<close>









subsection \<open>The tables a trace creates\<close>

text \<open>
  The destination tables that the statements of a trace create in a database that has
  none of them: a CREATE TABLE IF NOT EXISTS statement that was executed without an
  exception adds its table, with its columns, unless a table of that name is there
  already. Nothing else in a trace creates a table.
\<close>

fun created_by :: "event \<Rightarrow> (string \<times> column list) option" where
  "created_by (CurCall (Execute (Composed (CreateTableIfNotExists f cols) t))) = Some (t, cols)"
| "created_by _ = None"

fun create_tables ::
  "env \<Rightarrow> event list \<Rightarrow> event list \<Rightarrow> (string \<times> column list) list \<Rightarrow>
   (string \<times> column list) list" where
  "create_tables env pre [] db = db"
| "create_tables env pre (e # es) db =
     create_tables env (pre @ [e]) es
       (case created_by e of
          None \<Rightarrow> db
        | Some (t, cols) \<Rightarrow>
            if outcome env (pre @ [e]) = None \<and> map_of db t = None then db @ [(t, cols)]
            else db)"

definition tables_created :: "env \<Rightarrow> event list \<Rightarrow> (string \<times> column list) list" where
  "tables_created env tr = create_tables env [] tr []"


subsection \<open>Example environments\<close>

text \<open>
  A configuration naming the directory \<open>/data\<close>, which holds \<open>shops.csv\<close>,
  \<open>notes.txt\<close> and \<open>roads.csv\<close>. In \<open>env_ok\<close> no call into the surroundings
  raises. The others differ in one respect: \<open>conn.cursor()\<close> raises (the configuration
  gives \<open>cursor_factory\<close> under \<open>db\<close>, a string where psycopg2 needs a cursor class),
  \<open>connect\<close> raises, the configuration file cannot be opened, the directory does not
  exist, the path is a regular file, the directory holds no \<open>*.csv\<close> entry, a directory
  above the path may not be searched.
\<close>

definition example_config :: yaml where
  "example_config =
     YMap [(''target_path'', YStr ''/data''),
           (''db'', YMap [(''host'', YStr ''localhost''), (''dbname'', YStr ''osm'')])]"

definition env_ok :: env where
  "env_ok =
     \<lparr>outcome = (\<lambda>tr. None),
      yaml_doc = (\<lambda>p. example_config),
      stat = (\<lambda>d. if d = ''/data'' then StatDir True else StatOSError ENOENT),
      listdir = (\<lambda>d. [''shops.csv'', ''notes.txt'', ''roads.csv''])\<rparr>"

definition cursor_factory_config :: yaml where
  "cursor_factory_config =
     YMap [(''target_path'', YStr ''/data''),
           (''db'', YMap [(''host'', YStr ''localhost''), (''dbname'', YStr ''osm''),
                         (''cursor_factory'', YStr ''DictCursor'')])]"

definition env_cursor_down :: env where
  "env_cursor_down =
     env_ok\<lparr>outcome := (\<lambda>tr. if tr \<noteq> [] \<and> last tr = ConnCursor
                              then Some (Exc ''TypeError'') else None),
            yaml_doc := (\<lambda>p. cursor_factory_config)\<rparr>"

definition env_db_down :: env where
  "env_db_down =
     env_ok\<lparr>outcome := (\<lambda>tr. case rev tr of Connect db # _ \<Rightarrow> Some (Exc ''OperationalError'')
                              | _ \<Rightarrow> None)\<rparr>"

definition env_no_config :: env where
  "env_no_config =
     env_ok\<lparr>outcome := (\<lambda>tr. case rev tr of FileOpen p # _ \<Rightarrow> Some (Exc ''FileNotFoundError'')
                              | _ \<Rightarrow> None)\<rparr>"






section \<open>Properties\<close>

subsection \<open>The two library calls that always raise\<close>

text \<open>
  The table name handed to \<open>SQL.format\<close> is a plain string, so composing either
  statement raises \<open>TypeError\<close>; and a cursor has no \<open>commit\<close>. Hence the provisioning
  step raises for every value given as table name, the COPY step is never reached, and a
  call of \<open>import_file_to_database\<close> only adds events of the class \<open>import_event\<close>.
\<close>

lemma SQL_format_create_str [simp]:
  "SQL_format create_table_sql [(''table_name'', PyStr s)] = Inl (Exc ''TypeError'')"
  by (simp add: SQL_format_def create_table_sql_def)

lemma SQL_format_copy_str [simp]:
  "SQL_format copy_sql [(''table_name'', PyStr s)] = Inl (Exc ''TypeError'')"
  by (simp add: SQL_format_def copy_sql_def)

lemma cursor_call_Commit [simp]:
  "cursor_call env Commit tr = (Some (Exc ''AttributeError''), tr)"
  by (simp add: cursor_call_def cursor_methods_def)

lemma cursor_call_Close [simp]:
  "cursor_call env Close tr = (outcome env (tr @ [CurCall Close]), tr @ [CurCall Close])"
  by (simp add: cursor_call_def cursor_methods_def call_def)

lemma provision_str [simp]:
  "provision env (PyStr s) tr =
     (Some (Exc ''TypeError''), tr @ [SqlFormat create_table_sql [(''table_name'', PyStr s)]])"
  by (simp add: provision_def)

lemma provision_raises: "fst (provision env a tr) \<noteq> None"
  by (simp add: provision_def Let_def split: sum.splits prod.splits option.splits)

lemma cursor_block_raises: "fst (cursor_block env p a tr) \<noteq> None"
  using provision_raises [of env a tr]
  by (auto simp: cursor_block_def split: prod.splits option.splits)

lemma cursor_block_eq_provision: "cursor_block env p a tr = provision env a tr"
  using provision_raises [of env a tr]
  by (auto simp: cursor_block_def split: prod.splits option.splits)

lemma import_file_trace:
  "\<exists>evs. snd (import_file_to_database env f tr) = tr @ evs \<and> list_all import_event evs"
  by (simp add: import_file_to_database_def cursor_block_eq_provision call_def Let_def
      split: option.splits exn.splits)

lemma import_all_trace:
  "\<exists>evs. snd (import_all env fs tr) = tr @ evs \<and> list_all import_event evs"
proof (induction fs arbitrary: tr)
  case Nil
  show ?case by simp
next
  case (Cons f fs)
  obtain evs where 1: "snd (import_file_to_database env f tr) = tr @ evs" "list_all import_event evs"
    using import_file_trace by blast
  obtain r tr1 where 2: "import_file_to_database env f tr = (r, tr1)" by (cases "import_file_to_database env f tr")
  with 1 have 3: "tr1 = tr @ evs" by simp
  show ?case
  proof (cases r)
    case None
    obtain evs' where "snd (import_all env fs tr1) = tr1 @ evs'" "list_all import_event evs'"
      using Cons.IH by blast
    with None 1 2 3 show ?thesis by (auto intro!: exI[of _ "evs @ evs'"])
  next
    case (Some e)
    with 1 2 3 show ?thesis by auto
  qed
qed


text \<open>When \<open>conn.cursor()\<close> raises, \<open>cur\<close> is unbound in the \<open>finally\<close> part and the
  function raises \<open>UnboundLocalError\<close>; when the cursor can be opened and closed, the
  function logs the failure and returns normally.\<close>

lemma import_cursor_failure:
  assumes "outcome env (tr @ [LogInfo (''Importing file '' @ path_str f @ '' into database table '' @ stem (name f) @ ''.''), ConnCursor]) = Some e"
  shows "fst (import_file_to_database env f tr) = Some (Exc ''UnboundLocalError'')"
  using assms by (simp add: import_file_to_database_def call_def Let_def split: exn.splits)

lemma import_contained:
  assumes "\<And>tr'. tr' \<noteq> [] \<Longrightarrow> last tr' = ConnCursor \<or> last tr' = CurCall Close \<Longrightarrow>
             outcome env tr' = None"
  shows "fst (import_file_to_database env f tr) = None"
    and "LogError (''Failed to import file '' @ path_str f @ '' into database table '' @
                   stem (name f)) \<in> set (snd (import_file_to_database env f tr))"
  using assms
  by (simp_all add: import_file_to_database_def call_def Let_def cursor_block_eq_provision)

lemma import_all_mono: "set tr \<subseteq> set (snd (import_all env files tr))"
  using import_all_trace [of env files tr] by auto

text \<open>So, as long as the cursor can be opened and closed, the loop works on every file:
  each one fails, is logged, and the next one is taken.\<close>

lemma import_all_contained:
  assumes "\<And>tr'. tr' \<noteq> [] \<Longrightarrow> last tr' = ConnCursor \<or> last tr' = CurCall Close \<Longrightarrow>
             outcome env tr' = None"
  shows "fst (import_all env files tr) = None \<and>
         (\<forall>f\<in>set files.
            LogError (''Failed to import file '' @ path_str f @ '' into database table '' @
                      stem (name f)) \<in> set (snd (import_all env files tr)))"
proof (induction files arbitrary: tr)
  case Nil
  show ?case by simp
next
  case (Cons f files)
  obtain tr1 where 1: "import_file_to_database env f tr = (None, tr1)"
    using import_contained(1) [OF assms, of f tr]
    by (cases "import_file_to_database env f tr") auto
  have 2: "LogError (''Failed to import file '' @ path_str f @ '' into database table '' @
                     stem (name f)) \<in> set tr1"
    using import_contained(2) [OF assms, of f tr] 1 by simp
  have 3: "set tr1 \<subseteq> set (snd (import_all env files tr1))"
    by (rule import_all_mono)
  from Cons.IH [of tr1] 1 2 3 show ?case by auto
qed


subsection \<open>The shape of a run\<close>

lemma read_yaml_config_trace:
  "\<exists>evs. snd (read_yaml_config env p tr) = tr @ evs \<and> list_all startup_event evs"
  by (simp add: read_yaml_config_def call_def split: option.splits exn.splits)

lemma list_files_trace:
  "\<exists>evs. snd (list_files env d tr) = tr @ evs \<and> list_all startup_event evs"
  by (simp add: list_files_def Path_glob_def Let_def
      split: yaml.splits option.splits sum.splits bool.splits)

lemma startup_trace:
  assumes "read_yaml_config env p [LogInfo ''Application started.''] = (r, tr1)"
    and "list_files env d tr1 = (r', tr2)"
  shows "list_all startup_event tr1" and "list_all startup_event tr2"
proof -
  obtain evs where "snd (read_yaml_config env p [LogInfo ''Application started.'']) = [LogInfo ''Application started.''] @ evs"
    "list_all startup_event evs"
    using read_yaml_config_trace by blast
  with assms(1) show 1: "list_all startup_event tr1" by simp
  obtain evs' where "snd (list_files env d tr1) = tr1 @ evs'" "list_all startup_event evs'"
    using list_files_trace by blast
  with assms(2) 1 show "list_all startup_event tr2" by simp
qed


text \<open>
  A run either ends before \<open>connect\<close> is called, or \<open>connect\<close> raises (an
  \<open>Exception\<close> is logged, anything else leaves \<open>run\<close>), or the connection is opened,
  the files are worked on and the connection is closed last.
\<close>

lemma run_shape:
  "(\<exists>r pre. run env cfg = (r, pre) \<and> list_all startup_event pre) \<or>
   (\<exists>pre db e. list_all startup_event pre \<and> outcome env (pre @ [Connect db]) = Some e \<and>
       run env cfg =
         (case e of Exc n \<Rightarrow> (None, pre @ [Connect db, LogError ''An error occurred whilst importing data files into the database''])
                  | BaseExc n \<Rightarrow> (Some e, pre @ [Connect db]))) \<or>
   (\<exists>pre db evs. list_all startup_event pre \<and> outcome env (pre @ [Connect db]) = None \<and>
       list_all import_event evs \<and> snd (run env cfg) = pre @ Connect db # evs @ [ConnClose])"
proof -
  obtain r1 tr1 where a: "read_yaml_config env cfg [LogInfo ''Application started.''] = (r1, tr1)"
    by (cases "read_yaml_config env cfg [LogInfo ''Application started.'']")
  have s1: "list_all startup_event tr1"
    using read_yaml_config_trace [of env cfg "[LogInfo ''Application started.'']"] a by auto
  show ?thesis
  proof (cases r1)
    case (Inl e)
    with a s1 show ?thesis by (simp add: run_def)
  next
    case (Inr config)
    note cfgr = this
    show ?thesis
    proof (cases "getitem config ''target_path''")
      case (Inl e)
      with a s1 cfgr show ?thesis by (simp add: run_def)
    next
      case (Inr target)
      obtain r2 tr2 where b: "list_files env target tr1 = (r2, tr2)"
        by (cases "list_files env target tr1")
      have s2: "list_all startup_event tr2"
        using startup_trace(2) [OF a b] .
      show ?thesis
      proof (cases r2)
        case (Inl e)
        with a b s2 cfgr Inr show ?thesis by (simp add: run_def)
      next
        case files: (Inr files)
        have runeq: "run env cfg =
            (case run_try env config files tr2 of
               (r, db_conn, tr3) \<Rightarrow>
                 (case (case r of
                          Some (Exc n) \<Rightarrow> (None, tr3 @ [LogError ''An error occurred whilst importing data files into the database''])
                        | _ \<Rightarrow> (r, tr3))
                  of (r', tr4) \<Rightarrow>
                    if db_conn
                    then (case call env ConnClose tr4 of
                            (Some e, tr5) \<Rightarrow> (Some e, tr5)
                          | (None, tr5) \<Rightarrow> (r', tr5))
                    else (r', tr4)))"
          using a b cfgr Inr files by (simp add: run_def)
        show ?thesis
        proof (cases "getitem config ''db''")
          case (Inl e)
          then have "run_try env config files tr2 = (Some e, False, tr2)"
            by (simp add: run_try_def)
          with runeq s2 show ?thesis by (cases e) simp_all
        next
          case db: (Inr db)
          show ?thesis
          proof (cases "\<exists>kw. db = YMap kw")
            case False
            then have "run_try env config files tr2 = (Some (Exc ''TypeError''), False, tr2)"
              using db by (cases db) (simp_all add: run_try_def)
            with runeq s2 show ?thesis by simp
          next
            case True
            then obtain kw where kw: "db = YMap kw" by blast
            show ?thesis
            proof (cases "outcome env (tr2 @ [Connect db])")
              case (Some e)
              then have "run_try env config files tr2 = (Some e, False, tr2 @ [Connect db])"
                using db kw by (simp add: run_try_def call_def)
              with runeq have "run env cfg =
                 (case e of Exc n \<Rightarrow> (None, tr2 @ [Connect db, LogError ''An error occurred whilst importing data files into the database''])
                  | BaseExc n \<Rightarrow> (Some e, tr2 @ [Connect db]))"
                by (cases e) simp_all
              with s2 Some show ?thesis by blast
            next
              case None
              obtain evs where evs: "snd (import_all env files (tr2 @ [Connect db])) = (tr2 @ [Connect db]) @ evs"
                "list_all import_event evs"
                using import_all_trace by blast
              obtain r3 tr3 where c: "import_all env files (tr2 @ [Connect db]) = (r3, tr3)"
                by (cases "import_all env files (tr2 @ [Connect db])")
              with evs have tr3: "tr3 = tr2 @ Connect db # evs" by simp
              have rt: "run_try env config files tr2 =
                  (case r3 of Some e \<Rightarrow> (Some e, True, tr3)
                   | None \<Rightarrow> (None, True, tr3 @ [LogInfo ''Import complete.'']))"
                using db kw None c by (simp add: run_try_def call_def split: option.splits)
              have "\<exists>evs'. list_all import_event evs' \<and> snd (run env cfg) = tr2 @ Connect db # evs' @ [ConnClose]"
              proof (cases r3)
                case None
                with rt runeq tr3 have "snd (run env cfg) = tr2 @ Connect db # (evs @ [LogInfo ''Import complete.'']) @ [ConnClose]"
                  by (simp add: call_def split: option.splits)
                moreover have "list_all import_event (evs @ [LogInfo ''Import complete.''])"
                  using evs(2) by simp
                ultimately show ?thesis by blast
              next
                case (Some e)
                show ?thesis
                proof (cases e)
                  case (Exc n)
                  with Some rt runeq tr3 have "snd (run env cfg) = tr2 @ Connect db # (evs @ [LogError ''An error occurred whilst importing data files into the database'']) @ [ConnClose]"
                    by (simp add: call_def split: option.splits)
                  moreover have "list_all import_event (evs @ [LogError ''An error occurred whilst importing data files into the database''])"
                    using evs(2) by simp
                  ultimately show ?thesis by blast
                next
                  case (BaseExc n)
                  with Some rt runeq tr3 have "snd (run env cfg) = tr2 @ Connect db # evs @ [ConnClose]"
                    by (simp add: call_def split: option.splits)
                  with evs(2) show ?thesis by blast
                qed
              qed
              with s2 None show ?thesis by blast
            qed
          qed
        qed
      qed
    qed
  qed
qed

lemma split_at_connect:
  assumes "list_all startup_event pre"
    and "\<forall>e\<in>set rest'. \<forall>d. e \<noteq> Connect d"
    and "tr @ Connect db # rest = pre @ Connect db' # rest'"
  shows "tr = pre \<and> db = db' \<and> rest = rest'"
  using assms
proof (induction tr arbitrary: pre)
  case Nil
  then show ?case by (cases pre) auto
next
  case (Cons x tr)
  show ?case
  proof (cases pre)
    case Nil
    with Cons.prems have "Connect db \<in> set rest'" by auto
    with Cons.prems(2) show ?thesis by blast
  next
    case (Cons y pre')
    with Cons.prems Cons.IH [of pre'] show ?thesis by auto
  qed
qed

lemma import_event_not_Connect: "import_event e \<Longrightarrow> e \<noteq> Connect d"
  by (cases e) auto

lemma startup_event_not_Connect: "startup_event e \<Longrightarrow> e \<noteq> Connect d"
  by (cases e) auto

lemma run_events:
  assumes "e \<in> set (snd (run env cfg))"
  shows "startup_event e \<or> import_event e \<or> (\<exists>db. e = Connect db) \<or> e = ConnClose"
proof -
  from run_shape [of env cfg] show ?thesis
  proof (elim disjE exE conjE)
    fix r pre assume "run env cfg = (r, pre)" "list_all startup_event pre"
    with assms show ?thesis by (auto simp: list_all_iff)
  next
    fix pre db x
    assume "list_all startup_event pre"
      and "run env cfg = (case x of Exc n \<Rightarrow> (None, pre @ [Connect db, LogError ''An error occurred whilst importing data files into the database''])
                  | BaseExc n \<Rightarrow> (Some x, pre @ [Connect db]))"
    with assms show ?thesis by (cases x) (auto simp: list_all_iff)
  next
    fix pre db evs
    assume "list_all startup_event pre" "list_all import_event evs"
      "snd (run env cfg) = pre @ Connect db # evs @ [ConnClose]"
    with assms show ?thesis by (auto simp: list_all_iff)
  qed
qed

text \<open>No statement is ever sent: no run executes a statement, commits, or starts a COPY.\<close>

lemma no_sql_reaches_server:
  "CurCall (Execute q) \<notin> set (snd (run env config_path)) \<and>
   CurCall (CopyExpert q f) \<notin> set (snd (run env config_path))"
  using run_events [of "CurCall (Execute q)" env config_path]
    run_events [of "CurCall (CopyExpert q f)" env config_path]
  by auto

text \<open>Hence no run, in any environment, creates a table.\<close>

lemma create_tables_none:
  "\<forall>e\<in>set es. created_by e = None \<Longrightarrow> create_tables env pre es db = db"
  by (induction es arbitrary: pre db) auto

lemma startup_event_creates_nothing: "startup_event e \<Longrightarrow> created_by e = None"
  by (cases e) auto

lemma import_event_creates_nothing: "import_event e \<Longrightarrow> created_by e = None"
  by (cases e) auto

lemma no_table_created_in_any_run: "tables_created env (snd (run env config_path)) = []"
proof -
  have "\<forall>e\<in>set (snd (run env config_path)). created_by e = None"
  proof
    fix e assume "e \<in> set (snd (run env config_path))"
    from run_events [OF this] show "created_by e = None"
      by (auto dest: startup_event_creates_nothing import_event_creates_nothing)
  qed
  then show ?thesis
    by (simp add: tables_created_def create_tables_none)
qed

subsection \<open>C1: a failing file and the rest of the batch\<close>

text \<open>
  C1 says that any failure while one file is worked on is caught and logged inside
  \<open>import_file_to_database\<close> and that the files after it are still processed. The code
  does so as long as the cursor can be opened and closed, but not when \<open>conn.cursor()\<close>
  itself raises: \<open>cur\<close> is then unbound, the \<open>finally\<close> part raises
  \<open>UnboundLocalError\<close>, and the loop of \<open>run\<close> ends. With \<open>shops.csv\<close> and
  \<open>roads.csv\<close> listed and a configuration whose \<open>db\<close> section gives
  \<open>cursor_factory\<close> (a string, which \<open>conn.cursor()\<close> cannot call), the run logs the
  failure of \<open>shops.csv\<close>, logs the run-level error, closes the connection, and never
  starts on \<open>roads.csv\<close>.
\<close>

theorem cursor_failure_aborts_batch:
  "fst (list_files env_cursor_down (YStr ''/data'') []) =
     Inr [PosixPath ''/'' [''data'', ''shops.csv''], PosixPath ''/'' [''data'', ''roads.csv'']] \<and>
   fst (import_file_to_database env_cursor_down (PosixPath ''/'' [''data'', ''shops.csv'']) []) =
     Some (Exc ''UnboundLocalError'') \<and>
   run env_cursor_down ''./config.yml'' =
     (None,
      [LogInfo ''Application started.'', FileOpen ''./config.yml'',
       YamlSafeLoad ''./config.yml'', FileClose ''./config.yml'', Glob ''/data'' ''*.csv'',
       Connect (YMap [(''host'', YStr ''localhost''), (''dbname'', YStr ''osm''),
                      (''cursor_factory'', YStr ''DictCursor'')]),
       LogInfo ''Importing file /data/shops.csv into database table shops.'',
       ConnCursor,
       LogError ''Failed to import file /data/shops.csv into database table shops'',
       LogError ''An error occurred whilst importing data files into the database'',
       ConnClose])"
  by code_simp


subsection \<open>C2: rows copied by a run\<close>

text \<open>
  C2 says that importing a file of one header line and R data rows appends R rows to its
  table. In the code the COPY step is never reached: with every call into the surroundings
  succeeding, the run on \<open>shops.csv\<close> and \<open>roads.csv\<close> composes the CREATE TABLE
  statement, which raises, logs one failure per file, and ends; no statement is executed
  and no \<open>copy_expert\<close> call is made, so no row is appended to any table.
\<close>

theorem no_row_is_copied:
  "run env_ok ''./config.yml'' =
     (None,
      [LogInfo ''Application started.'', FileOpen ''./config.yml'',
       YamlSafeLoad ''./config.yml'', FileClose ''./config.yml'', Glob ''/data'' ''*.csv'',
       Connect (YMap [(''host'', YStr ''localhost''), (''dbname'', YStr ''osm'')]),
       LogInfo ''Importing file /data/shops.csv into database table shops.'',
       ConnCursor,
       SqlFormat create_table_sql [(''table_name'', PyStr ''shops'')],
       CurCall Close,
       LogError ''Failed to import file /data/shops.csv into database table shops'',
       CurCall Close,
       LogInfo ''Importing file /data/roads.csv into database table roads.'',
       ConnCursor,
       SqlFormat create_table_sql [(''table_name'', PyStr ''roads'')],
       CurCall Close,
       LogError ''Failed to import file /data/roads.csv into database table roads'',
       CurCall Close,
       LogInfo ''Import complete.'', ConnClose])"
  by code_simp


subsection \<open>C3: the table name as an identifier\<close>

text \<open>
  C3 says that the table name derived from the file name enters the CREATE TABLE and COPY
  statements as a quoted identifier. The code gives the name to \<open>SQL.format\<close> as a plain
  string, not as an \<open>sql.Identifier\<close>: composing either statement raises
  \<open>TypeError\<close>, and the import of \<open>shops.csv\<close> ends with the failure logged and no
  statement carrying the name. Given as an identifier, the name would be composed.
\<close>

theorem table_name_passed_as_plain_str:
  "import_file_to_database env_ok (PosixPath ''/'' [''data'', ''shops.csv'']) [] =
     (None,
      [LogInfo ''Importing file /data/shops.csv into database table shops.'',
       ConnCursor,
       SqlFormat create_table_sql [(''table_name'', PyStr ''shops'')],
       CurCall Close,
       LogError ''Failed to import file /data/shops.csv into database table shops'',
       CurCall Close]) \<and>
   SQL_format create_table_sql [(''table_name'', PyStr ''shops'')] = Inl (Exc ''TypeError'') \<and>
   SQL_format copy_sql [(''table_name'', PyStr ''shops'')] = Inl (Exc ''TypeError'') \<and>
   SQL_format create_table_sql [(''table_name'', PyIdentifier ''shops'')] =
     Inr (Composed create_table_sql ''shops'')"
  by code_simp


subsection \<open>C4: provisioning twice\<close>

text \<open>
  C4 says that the provisioning step, invoked twice in succession for the same table,
  produces no error the second time. In the code the step (lines 97 to 124) raises every
  time: \<open>TypeError\<close> from composing the statement with the name \<open>shops\<close> as a plain
  string, on the first and on the second invocation; and with the name given as an
  identifier it would still raise, \<open>AttributeError\<close> from \<open>cur.commit()\<close>, after the
  statement has been executed.
\<close>

theorem provisioning_raises_both_times:
  "provision env_ok (PyStr ''shops'') [] =
     (Some (Exc ''TypeError''), [SqlFormat create_table_sql [(''table_name'', PyStr ''shops'')]]) \<and>
   provision env_ok (PyStr ''shops'')
       [SqlFormat create_table_sql [(''table_name'', PyStr ''shops'')]] =
     (Some (Exc ''TypeError''),
      [SqlFormat create_table_sql [(''table_name'', PyStr ''shops'')],
       SqlFormat create_table_sql [(''table_name'', PyStr ''shops'')]]) \<and>
   provision env_ok (PyIdentifier ''shops'') [] =
     (Some (Exc ''AttributeError''),
      [SqlFormat create_table_sql [(''table_name'', PyIdentifier ''shops'')],
       CurCall (Execute (Composed create_table_sql ''shops''))])"
  by code_simp


subsection \<open>C5: the tables created and their schema\<close>



subsection \<open>C6: listing a directory\<close>







subsection \<open>C7: the connection cannot be opened\<close>

text \<open>
  C7: in every run in which \<open>connect\<close> is called and raises an \<open>Exception\<close>, the run
  returns normally, the only thing it does after the call is to log the error, and all it
  did before were the calls of the start-up (logging, configuration, directory listing):
  no cursor is opened and no statement is composed or sent for any file.
\<close>

theorem connect_failure_is_fatal:
  assumes "snd (run env config_path) = tr @ Connect db # rest"
    and "outcome env (tr @ [Connect db]) = Some (Exc n)"
  shows "fst (run env config_path) = None \<and>
         rest = [LogError ''An error occurred whilst importing data files into the database''] \<and>
         list_all startup_event tr"
proof -
  from run_shape [of env config_path] show ?thesis
  proof (elim disjE exE conjE)
    fix r pre assume "run env config_path = (r, pre)" "list_all startup_event pre"
    with assms(1) have False by (auto simp: list_all_iff)
    then show ?thesis ..
  next
    fix pre db' x
    assume pre: "list_all startup_event pre"
      and out: "outcome env (pre @ [Connect db']) = Some x"
      and run: "run env config_path = (case x of Exc n \<Rightarrow> (None, pre @ [Connect db', LogError ''An error occurred whilst importing data files into the database''])
                  | BaseExc n \<Rightarrow> (Some x, pre @ [Connect db']))"
    show ?thesis
    proof (cases x)
      case (Exc m)
      with run assms(1) have "tr @ Connect db # rest = pre @ Connect db' # [LogError ''An error occurred whilst importing data files into the database'']"
        by simp
      from split_at_connect [OF pre _ this] have "tr = pre \<and> db = db' \<and> rest = [LogError ''An error occurred whilst importing data files into the database'']"
        by simp
      with run Exc pre show ?thesis by simp
    next
      case (BaseExc m)
      with run assms(1) have "tr @ Connect db # rest = pre @ Connect db' # []" by simp
      from split_at_connect [OF pre _ this] have "tr = pre \<and> db = db'" by simp
      with out assms(2) BaseExc show ?thesis by simp
    qed
  next
    fix pre db' evs
    assume pre: "list_all startup_event pre"
      and out: "outcome env (pre @ [Connect db']) = None"
      and evs: "list_all import_event evs"
      and run: "snd (run env config_path) = pre @ Connect db' # evs @ [ConnClose]"
    from evs have "\<forall>e\<in>set (evs @ [ConnClose]). \<forall>d. e \<noteq> Connect d"
      by (auto simp: list_all_iff dest: import_event_not_Connect)
    from split_at_connect [OF pre this] run assms(1) have "tr = pre \<and> db = db'" by metis
    with out assms(2) show ?thesis by simp
  qed
qed


text \<open>Witness for C7: the database refuses the connection.\<close>

theorem connect_failure_is_fatal_witness:
  "snd (run env_db_down ''./config.yml'') =
     [LogInfo ''Application started.'', FileOpen ''./config.yml'',
      YamlSafeLoad ''./config.yml'', FileClose ''./config.yml'', Glob ''/data'' ''*.csv''] @
     Connect (YMap [(''host'', YStr ''localhost''), (''dbname'', YStr ''osm'')]) #
     [LogError ''An error occurred whilst importing data files into the database''] \<and>
   fst (run env_db_down ''./config.yml'') = None"
proof -
  have h: "snd (run env_db_down ''./config.yml'') =
     [LogInfo ''Application started.'', FileOpen ''./config.yml'',
      YamlSafeLoad ''./config.yml'', FileClose ''./config.yml'', Glob ''/data'' ''*.csv''] @
     Connect (YMap [(''host'', YStr ''localhost''), (''dbname'', YStr ''osm'')]) #
     [LogError ''An error occurred whilst importing data files into the database'']"
    by code_simp
  have o: "outcome env_db_down
     ([LogInfo ''Application started.'', FileOpen ''./config.yml'',
       YamlSafeLoad ''./config.yml'', FileClose ''./config.yml'', Glob ''/data'' ''*.csv''] @
      [Connect (YMap [(''host'', YStr ''localhost''), (''dbname'', YStr ''osm'')])]) =
     Some (Exc ''OperationalError'')"
    by (simp add: env_db_down_def env_ok_def)
  from connect_failure_is_fatal [OF h o] h show ?thesis by simp
qed


subsection \<open>C8: the connection is closed\<close>

text \<open>
  C8: in every run in which \<open>connect\<close> is called and returns, whatever happens to the
  files afterwards (imports that fail and are logged, an exception that leaves the loop,
  an exception that is not an \<open>Exception\<close>), the last call of the run is
  \<open>db_conn.close()\<close>, and it is the only close of the connection.
\<close>

theorem connection_closed_on_every_exit:
  assumes "snd (run env config_path) = tr @ Connect db # rest"
    and "outcome env (tr @ [Connect db]) = None"
  shows "\<exists>evs. rest = evs @ [ConnClose] \<and> list_all import_event evs"
proof -
  from run_shape [of env config_path] show ?thesis
  proof (elim disjE exE conjE)
    fix r pre assume "run env config_path = (r, pre)" "list_all startup_event pre"
    with assms(1) have False by (auto simp: list_all_iff)
    then show ?thesis ..
  next
    fix pre db' x
    assume pre: "list_all startup_event pre"
      and out: "outcome env (pre @ [Connect db']) = Some x"
      and run: "run env config_path = (case x of Exc n \<Rightarrow> (None, pre @ [Connect db', LogError ''An error occurred whilst importing data files into the database''])
                  | BaseExc n \<Rightarrow> (Some x, pre @ [Connect db']))"
    have "\<exists>rest'. snd (run env config_path) = pre @ Connect db' # rest' \<and> (\<forall>e\<in>set rest'. \<forall>d. e \<noteq> Connect d)"
      using run by (cases x) auto
    then obtain rest' where "snd (run env config_path) = pre @ Connect db' # rest'" "\<forall>e\<in>set rest'. \<forall>d. e \<noteq> Connect d"
      by blast
    with split_at_connect [OF pre this(2)] assms(1) have "tr = pre \<and> db = db'" by metis
    with out assms(2) show ?thesis by simp
  next
    fix pre db' evs
    assume pre: "list_all startup_event pre"
      and evs: "list_all import_event evs"
      and run: "snd (run env config_path) = pre @ Connect db' # evs @ [ConnClose]"
    from evs have "\<forall>e\<in>set (evs @ [ConnClose]). \<forall>d. e \<noteq> Connect d"
      by (auto simp: list_all_iff dest: import_event_not_Connect)
    from split_at_connect [OF pre this] run assms(1) have "rest = evs @ [ConnClose]" by metis
    with evs show ?thesis by blast
  qed
qed


text \<open>Witness for C8: a run in which an exception leaves \<open>import_file_to_database\<close>
  for the first file.\<close>

theorem connection_closed_on_every_exit_witness:
  "snd (run env_cursor_down ''./config.yml'') =
     [LogInfo ''Application started.'', FileOpen ''./config.yml'',
      YamlSafeLoad ''./config.yml'', FileClose ''./config.yml'', Glob ''/data'' ''*.csv''] @
     Connect (YMap [(''host'', YStr ''localhost''), (''dbname'', YStr ''osm''),
                    (''cursor_factory'', YStr ''DictCursor'')]) #
     [LogInfo ''Importing file /data/shops.csv into database table shops.'',
      ConnCursor,
      LogError ''Failed to import file /data/shops.csv into database table shops'',
      LogError ''An error occurred whilst importing data files into the database'',
      ConnClose] \<and>
   (\<exists>evs. [LogInfo ''Importing file /data/shops.csv into database table shops.'',
      ConnCursor,
      LogError ''Failed to import file /data/shops.csv into database table shops'',
      LogError ''An error occurred whilst importing data files into the database'',
      ConnClose] = evs @ [ConnClose] \<and> list_all import_event evs)"
proof -
  have h: "snd (run env_cursor_down ''./config.yml'') =
     [LogInfo ''Application started.'', FileOpen ''./config.yml'',
      YamlSafeLoad ''./config.yml'', FileClose ''./config.yml'', Glob ''/data'' ''*.csv''] @
     Connect (YMap [(''host'', YStr ''localhost''), (''dbname'', YStr ''osm''),
                    (''cursor_factory'', YStr ''DictCursor'')]) #
     [LogInfo ''Importing file /data/shops.csv into database table shops.'',
      ConnCursor,
      LogError ''Failed to import file /data/shops.csv into database table shops'',
      LogError ''An error occurred whilst importing data files into the database'',
      ConnClose]"
    by code_simp
  have o: "outcome env_cursor_down
     ([LogInfo ''Application started.'', FileOpen ''./config.yml'',
       YamlSafeLoad ''./config.yml'', FileClose ''./config.yml'', Glob ''/data'' ''*.csv''] @
      [Connect (YMap [(''host'', YStr ''localhost''), (''dbname'', YStr ''osm''),
                    (''cursor_factory'', YStr ''DictCursor'')])]) = None"
    by (simp add: env_cursor_down_def env_ok_def)
  from connection_closed_on_every_exit [OF h o] h show ?thesis by simp
qed


subsection \<open>C9: the configuration cannot be read\<close>

text \<open>
  C9: when opening the configuration file or parsing it raises an \<open>Exception\<close>,
  \<open>read_yaml_config\<close> logs it and returns \<open>None\<close>; subscripting \<open>None\<close> then raises
  \<open>TypeError\<close> before the \<open>try\<close>, so the run ends with that exception, having
  listed no directory, opened no connection and processed no file.
\<close>

theorem config_unreadable_is_fatal:
  assumes "outcome env [LogInfo ''Application started.'', FileOpen config_path] = Some (Exc n) \<or>
           (outcome env [LogInfo ''Application started.'', FileOpen config_path] = None \<and>
            outcome env [LogInfo ''Application started.'', FileOpen config_path,
                         YamlSafeLoad config_path] = Some (Exc n))"
  shows "fst (run env config_path) = Some (Exc ''TypeError'') \<and>
         (snd (run env config_path) =
            [LogInfo ''Application started.'', FileOpen config_path,
             LogError ''Failed to load YAML config file.''] \<or>
          snd (run env config_path) =
            [LogInfo ''Application started.'', FileOpen config_path, YamlSafeLoad config_path,
             FileClose config_path, LogError ''Failed to load YAML config file.''])"
  using assms by (auto simp: run_def read_yaml_config_def call_def)


text \<open>Witness for C9: the configuration file is missing.\<close>

theorem config_unreadable_is_fatal_witness:
  "outcome env_no_config [LogInfo ''Application started.'', FileOpen ''./config.yml''] =
     Some (Exc ''FileNotFoundError'') \<and>
   fst (run env_no_config ''./config.yml'') = Some (Exc ''TypeError'') \<and>
   Connect (YMap [(''host'', YStr ''localhost''), (''dbname'', YStr ''osm'')])
     \<notin> set (snd (run env_no_config ''./config.yml''))"
proof -
  have h: "outcome env_no_config [LogInfo ''Application started.'', FileOpen ''./config.yml''] =
     Some (Exc ''FileNotFoundError'')"
    by (simp add: env_no_config_def env_ok_def)
  then have "outcome env_no_config [LogInfo ''Application started.'', FileOpen ''./config.yml''] = Some (Exc ''FileNotFoundError'') \<or>
           (outcome env_no_config [LogInfo ''Application started.'', FileOpen ''./config.yml''] = None \<and>
            outcome env_no_config [LogInfo ''Application started.'', FileOpen ''./config.yml'',
                         YamlSafeLoad ''./config.yml''] = Some (Exc ''FileNotFoundError''))"
    by simp
  from config_unreadable_is_fatal [OF this] h show ?thesis by auto
qed


subsection \<open>C10: nothing is committed\<close>

text \<open>
  C10: no run calls \<open>commit\<close> on the connection. The only \<open>commit\<close> of the program is
  \<open>cur.commit()\<close>, on the cursor, which has no such method, so no commit call of any
  kind is made before the connection is closed.
\<close>

theorem commit_never_called:
  "ConnCommit \<notin> set (snd (run env config_path)) \<and>
   CurCall Commit \<notin> set (snd (run env config_path))"
  using run_events [of ConnCommit env config_path] run_events [of "CurCall Commit" env config_path]
  by auto


text \<open>Witness for C10: the run on \<open>shops.csv\<close> and \<open>roads.csv\<close>, which closes its
  connection without a commit.\<close>

theorem commit_never_called_witness:
  "ConnCommit \<notin> set (snd (run env_ok ''./config.yml'')) \<and>
   CurCall Commit \<notin> set (snd (run env_ok ''./config.yml'')) \<and>
   ConnClose \<in> set (snd (run env_ok ''./config.yml''))"
proof -
  have "ConnClose \<in> set (snd (run env_ok ''./config.yml''))" by code_simp
  with commit_never_called [of env_ok "''./config.yml''"] show ?thesis by simp
qed


end
